theory Spec2Isabelle
  imports Main "HOL-Library.Sublist"
begin

section \<open>Python values and errors\<close>

datatype json =
    JNull
  | JBool bool
  | JInt int
  | JFloat string
  | JString string
  | JArray "json list"
  | JObject "(string \<times> json) list"

type_synonym dict = "(string \<times> json) list"

datatype error =
    JSONDecodeError
  | ValueError
  | TypeError
  | AttributeError
  | KeyError
  | IndexError
  | ValidationError
  | HTTPException int string

definition dict_get :: "dict \<Rightarrow> string \<Rightarrow> json \<Rightarrow> json" where
  "dict_get d k dflt = (case map_of d k of None \<Rightarrow> dflt | Some v \<Rightarrow> v)"

definition dict_item :: "dict \<Rightarrow> string \<Rightarrow> error + json" where
  "dict_item d k = (case map_of d k of None \<Rightarrow> Inl KeyError | Some v \<Rightarrow> Inr v)"

section \<open>String primitives\<close>

fun find_from :: "string \<Rightarrow> string \<Rightarrow> nat \<Rightarrow> int" where
  "find_from sub [] i = (if sub = [] then int i else - 1)"
| "find_from sub (c # cs) i = (if prefix sub (c # cs) then int i else find_from sub cs (Suc i))"

definition find :: "string \<Rightarrow> string \<Rightarrow> int" where
  "find s sub = find_from sub s 0"

fun rfind_from :: "string \<Rightarrow> string \<Rightarrow> nat \<Rightarrow> int" where
  "rfind_from sub [] i = (if sub = [] then int i else - 1)"
| "rfind_from sub (c # cs) i =
     (let r = rfind_from sub cs (Suc i)
      in if 0 \<le> r then r else if prefix sub (c # cs) then int i else - 1)"

definition rfind :: "string \<Rightarrow> string \<Rightarrow> int" where
  "rfind s sub = rfind_from sub s 0"

definition clamp_index :: "nat \<Rightarrow> int \<Rightarrow> nat" where
  "clamp_index n i = (if i < 0 then nat (int n + i) else min n (nat i))"

definition slice :: "'a list \<Rightarrow> int \<Rightarrow> int \<Rightarrow> 'a list" where
  "slice s a b =
     (let lo = clamp_index (length s) a; hi = clamp_index (length s) b
      in take (hi - lo) (drop lo s))"

section \<open>parse_ai_response\<close>

definition default_result :: "string \<Rightarrow> dict" where
  "default_result default_folder =
     [(''folder'', JString default_folder),
      (''title'', JString ''Untitled''),
      (''summary'', JString ''''),
      (''slug'', JString ''note'')]"

definition parse_ai_response :: "(string \<Rightarrow> error + json) \<Rightarrow> string \<Rightarrow> string \<Rightarrow> error + dict" where
  "parse_ai_response loads response default_folder =
     (let start = find response ''{'';
          end = rfind response ''}'' + 1
      in if 0 \<le> start \<and> start < end then
           (case loads (slice response start end) of
              Inl JSONDecodeError \<Rightarrow> Inr (default_result default_folder)
            | Inl e \<Rightarrow> Inl e
            | Inr (JObject data) \<Rightarrow>
                Inr [(''folder'', dict_get data ''folder'' (JString default_folder)),
                     (''title'', dict_get data ''title'' (JString ''Untitled'')),
                     (''summary'', dict_get data ''summary'' (JString '''')),
                     (''slug'', dict_get data ''slug'' (JString ''note''))]
            | Inr _ \<Rightarrow> Inl AttributeError)
         else Inr (default_result default_folder))"


definition is_ws :: "char \<Rightarrow> bool" where
  "is_ws c = (c = CHR 0x20 \<or> c = CHR 0x09 \<or> c = CHR 0x0A \<or> c = CHR 0x0D)"

definition skip_ws :: "string \<Rightarrow> string" where
  "skip_ws = dropWhile is_ws"

definition digit_val :: "char \<Rightarrow> nat option" where
  "digit_val c = map_of (zip ''0123456789'' [0, 1, 2, 3, 4, 5, 6, 7, 8, 9]) c"

definition is_digit :: "char \<Rightarrow> bool" where
  "is_digit c = (digit_val c \<noteq> None)"

definition hex_val :: "char \<Rightarrow> nat option" where
  "hex_val c = map_of (zip ''0123456789abcdefABCDEF''
                 [0, 1, 2, 3, 4, 5, 6, 7, 8, 9, 10, 11, 12, 13, 14, 15, 10, 11, 12, 13, 14, 15]) c"

fun nat_of_digits :: "(char \<Rightarrow> nat option) \<Rightarrow> nat \<Rightarrow> nat \<Rightarrow> string \<Rightarrow> nat option" where
  "nat_of_digits val base acc [] = Some acc"
| "nat_of_digits val base acc (c # cs) =
     (case val c of None \<Rightarrow> None | Some d \<Rightarrow> nat_of_digits val base (acc * base + d) cs)"

definition backslash :: char where
  "backslash = CHR 0x5C"

definition unescape :: "char \<Rightarrow> char option" where
  "unescape e = map_of [(CHR ''\"'', CHR ''\"''), (backslash, backslash), (CHR ''/'', CHR ''/''),
                        (CHR ''b'', CHR 0x08), (CHR ''f'', CHR 0x0C), (CHR ''n'', CHR 0x0A),
                        (CHR ''r'', CHR 0x0D), (CHR ''t'', CHR 0x09)] e"

fun scanstring :: "string \<Rightarrow> (string \<times> string) option" where
  "scanstring [] = None"
| "scanstring (c # cs) =
     (if c = CHR ''\"'' then Some ([], cs)
      else if c = backslash then
        (case cs of
           [] \<Rightarrow> None
         | e # es \<Rightarrow>
             if e = CHR ''u'' then
               (if length es < 4 then None
                else case nat_of_digits hex_val 16 0 (take 4 es) of
                       None \<Rightarrow> None
                     | Some n \<Rightarrow>
                         if 256 \<le> n then None
                         else (case scanstring (drop 4 es) of
                                 None \<Rightarrow> None
                               | Some (str, rest) \<Rightarrow> Some (char_of n # str, rest)))
             else (case unescape e of
                     None \<Rightarrow> None
                   | Some d \<Rightarrow>
                       (case scanstring es of
                          None \<Rightarrow> None
                        | Some (str, rest) \<Rightarrow> Some (d # str, rest))))
      else if (of_char c :: nat) < 32 then None
      else (case scanstring cs of
              None \<Rightarrow> None
            | Some (str, rest) \<Rightarrow> Some (c # str, rest)))"


definition scan_digits :: "string \<Rightarrow> string \<times> string" where
  "scan_digits s = (takeWhile is_digit s, dropWhile is_digit s)"

definition scan_integer :: "string \<Rightarrow> (string \<times> string) option" where
  "scan_integer s =
     (case s of
        [] \<Rightarrow> None
      | d # t \<Rightarrow>
          if d = CHR ''0'' then Some ([d], t)
          else if is_digit d then Some (d # takeWhile is_digit t, dropWhile is_digit t)
          else None)"

definition scan_frac :: "string \<Rightarrow> string \<times> string" where
  "scan_frac s =
     (case s of
        p # d # t \<Rightarrow>
          if p = CHR ''.'' \<and> is_digit d then (p # d # takeWhile is_digit t, dropWhile is_digit t)
          else ([], s)
      | _ \<Rightarrow> ([], s))"

definition scan_exp :: "string \<Rightarrow> string \<times> string" where
  "scan_exp s =
     (case s of
        e # t \<Rightarrow>
          if e = CHR ''e'' \<or> e = CHR ''E'' then
            (case t of
               g # d # u \<Rightarrow>
                 if (g = CHR ''+'' \<or> g = CHR ''-'') \<and> is_digit d
                 then (e # g # d # takeWhile is_digit u, dropWhile is_digit u)
                 else if is_digit g then (e # takeWhile is_digit t, dropWhile is_digit t)
                 else ([], s)
             | [g] \<Rightarrow> if is_digit g then ([e, g], []) else ([], s)
             | [] \<Rightarrow> ([], s))
          else ([], s)
      | [] \<Rightarrow> ([], s))"

definition scan_number :: "string \<Rightarrow> (json \<times> string) option" where
  "scan_number s =
     (let (sign, s1) = (case s of [] \<Rightarrow> ([], s) | c # t \<Rightarrow> if c = CHR ''-'' then ([c], t) else ([], s))
      in case scan_integer s1 of
           None \<Rightarrow> None
         | Some (integer, s2) \<Rightarrow>
             (let (frac, s3) = scan_frac s2; (exp, s4) = scan_exp s3
              in if frac = [] \<and> exp = [] then
                   (case nat_of_digits digit_val 10 0 integer of
                      None \<Rightarrow> None
                    | Some n \<Rightarrow> Some (JInt (if sign = [] then int n else - int n), s4))
                 else Some (JFloat (sign @ integer @ frac @ exp), s4)))"

fun dict_set :: "dict \<Rightarrow> string \<Rightarrow> json \<Rightarrow> dict" where
  "dict_set [] k v = [(k, v)]"
| "dict_set ((k', v') # d) k v = (if k' = k then (k, v) # d else (k', v') # dict_set d k v)"

definition dict_of_pairs :: "(string \<times> json) list \<Rightarrow> dict" where
  "dict_of_pairs ps = foldl (\<lambda>d (k, v). dict_set d k v) [] ps"

function scan_once :: "string \<Rightarrow> (json \<times> string) option"
  and scan_array :: "string \<Rightarrow> (json list \<times> string) option"
  and scan_object :: "string \<Rightarrow> ((string \<times> json) list \<times> string) option"
where
  "scan_once [] = None"
| "scan_once (c # cs) =
     (if c = CHR ''\"'' then
        (case scanstring cs of None \<Rightarrow> None | Some (str, rest) \<Rightarrow> Some (JString str, rest))
      else if c = CHR ''{'' then
        (case skip_ws cs of
           [] \<Rightarrow> None
         | n # rest \<Rightarrow>
             if n = CHR ''}'' then Some (JObject [], rest)
             else (case scan_object (n # rest) of
                     None \<Rightarrow> None
                   | Some (pairs, rest') \<Rightarrow> Some (JObject (dict_of_pairs pairs), rest')))
      else if c = CHR ''['' then
        (case skip_ws cs of
           [] \<Rightarrow> None
         | n # rest \<Rightarrow>
             if n = CHR '']'' then Some (JArray [], rest)
             else (case scan_array (n # rest) of
                     None \<Rightarrow> None
                   | Some (values, rest') \<Rightarrow> Some (JArray values, rest')))
      else if prefix ''null'' (c # cs) then Some (JNull, drop 3 cs)
      else if prefix ''true'' (c # cs) then Some (JBool True, drop 3 cs)
      else if prefix ''false'' (c # cs) then Some (JBool False, drop 4 cs)
      else (case scan_number (c # cs) of
              Some r \<Rightarrow> Some r
            | None \<Rightarrow>
                if prefix ''NaN'' (c # cs) then Some (JFloat ''NaN'', drop 2 cs)
                else if prefix ''Infinity'' (c # cs) then Some (JFloat ''Infinity'', drop 7 cs)
                else if prefix ''-Infinity'' (c # cs) then Some (JFloat ''-Infinity'', drop 8 cs)
                else None))"
| "scan_array s =
     (case scan_once s of
        None \<Rightarrow> None
      | Some (v, rest) \<Rightarrow>
          (case skip_ws rest of
             [] \<Rightarrow> None
           | n # rest' \<Rightarrow>
               if n = CHR '']'' then Some ([v], rest')
               else if n = CHR '','' \<and> length rest' < length s then
                 (case scan_array (skip_ws rest') of
                    None \<Rightarrow> None
                  | Some (vs, rest'') \<Rightarrow> Some (v # vs, rest''))
               else None))"
| "scan_object [] = None"
| "scan_object (q # cs) =
     (if q \<noteq> CHR ''\"'' then None
      else case scanstring cs of
        None \<Rightarrow> None
      | Some (key, rest) \<Rightarrow>
          (case skip_ws rest of
             [] \<Rightarrow> None
           | colon # rest1 \<Rightarrow>
               if colon = CHR '':'' \<and> length rest1 < length cs then
                 (case scan_once (skip_ws rest1) of
                    None \<Rightarrow> None
                  | Some (v, rest2) \<Rightarrow>
                      (case skip_ws rest2 of
                         [] \<Rightarrow> None
                       | n # rest3 \<Rightarrow>
                           if n = CHR ''}'' then Some ([(key, v)], rest3)
                           else if n = CHR '','' \<and> length rest3 < length cs then
                             (case scan_object (skip_ws rest3) of
                                None \<Rightarrow> None
                              | Some (pairs, rest4) \<Rightarrow> Some ((key, v) # pairs, rest4))
                           else None))
               else None))"
  by pat_completeness auto
termination
proof (relation "measures [\<lambda>x. case x of Inl s \<Rightarrow> length s | Inr (Inl s) \<Rightarrow> length s | Inr (Inr s) \<Rightarrow> length s,
                          \<lambda>x. case x of Inl s \<Rightarrow> 0 | Inr (Inl s) \<Rightarrow> 1 | Inr (Inr s) \<Rightarrow> 1]", goal_cases)
  case 1
  then show ?case by simp
next
  case (2 c cs n rest)
  have "length (skip_ws cs) \<le> length cs"
    by (simp add: skip_ws_def length_dropWhile_le)
  with 2 show ?case by simp
next
  case (3 c cs n rest)
  have "length (skip_ws cs) \<le> length cs"
    by (simp add: skip_ws_def length_dropWhile_le)
  with 3 show ?case by simp
next
  case (4 s)
  then show ?case by simp
next
  case (5 s x v rest n rest')
  have "length (skip_ws rest') \<le> length rest'"
    by (simp add: skip_ws_def length_dropWhile_le)
  with 5 show ?case by simp
next
  case (6 q cs x key rest colon rest1)
  have "length (skip_ws rest1) \<le> length rest1"
    by (simp add: skip_ws_def length_dropWhile_le)
  with 6 show ?case by simp
next
  case (7 q cs x key rest colon rest1 x2 v rest2 n rest3)
  have "length (skip_ws rest3) \<le> length rest3"
    by (simp add: skip_ws_def length_dropWhile_le)
  with 7 show ?case by simp
qed

definition json_loads :: "string \<Rightarrow> error + json" where
  "json_loads s =
     (case scan_once (skip_ws s) of
        None \<Rightarrow> Inl JSONDecodeError
      | Some (obj, rest) \<Rightarrow> if skip_ws rest = [] then Inr obj else Inl JSONDecodeError)"




fun replace :: "string \<Rightarrow> string \<Rightarrow> string \<Rightarrow> string" where
  "replace old new [] = []"
| "replace old new (c # cs) =
     (if old \<noteq> [] \<and> prefix old (c # cs) then new @ replace old new (drop (length old - 1) cs)
      else c # replace old new cs)"



definition is_space :: "char \<Rightarrow> bool" where
  "is_space c = (c \<in> set [CHR 0x09, CHR 0x0A, CHR 0x0B, CHR 0x0C, CHR 0x0D,
                            CHR 0x1C, CHR 0x1D, CHR 0x1E, CHR 0x1F, CHR 0x20, CHR 0x85, CHR 0xA0])"

definition lstrip_chars :: "string \<Rightarrow> string \<Rightarrow> string" where
  "lstrip_chars chars s = dropWhile (\<lambda>c. c \<in> set chars) s"

definition strip :: "string \<Rightarrow> string" where
  "strip s = rev (dropWhile is_space (rev (dropWhile is_space s)))"

fun split_from :: "string \<Rightarrow> string \<Rightarrow> string \<Rightarrow> string list" where
  "split_from sep acc [] = [rev acc]"
| "split_from sep acc (c # cs) =
     (if sep \<noteq> [] \<and> prefix sep (c # cs) then rev acc # split_from sep [] (drop (length sep - 1) cs)
      else split_from sep (c # acc) cs)"

definition split :: "string \<Rightarrow> string \<Rightarrow> string list" where
  "split s sep = split_from sep [] s"


section \<open>json.dumps\<close>

definition hex_digit :: "nat \<Rightarrow> char" where
  "hex_digit n = ''0123456789abcdef'' ! n"

definition escape_char :: "char \<Rightarrow> string" where
  "escape_char c =
     (case map_of [(CHR ''\"'', [backslash, CHR ''\"'']), (backslash, [backslash, backslash]),
                   (CHR 0x08, [backslash, CHR ''b'']), (CHR 0x0C, [backslash, CHR ''f'']),
                   (CHR 0x0A, [backslash, CHR ''n'']), (CHR 0x0D, [backslash, CHR ''r'']),
                   (CHR 0x09, [backslash, CHR ''t''])] c of
        Some e \<Rightarrow> e
      | None \<Rightarrow>
          if 32 \<le> (of_char c :: nat) \<and> (of_char c :: nat) \<le> 126 then [c]
          else [backslash, CHR ''u'', CHR ''0'', CHR ''0'',
                hex_digit (of_char c div 16), hex_digit (of_char c mod 16)])"

definition encode_basestring_ascii :: "string \<Rightarrow> string" where
  "encode_basestring_ascii s = CHR ''\"'' # concat (map escape_char s) @ [CHR ''\"'']"

definition digit_char :: "nat \<Rightarrow> char" where
  "digit_char n = ''0123456789'' ! n"

fun str_nat :: "nat \<Rightarrow> string" where
  "str_nat n = (if n < 10 then [digit_char n] else str_nat (n div 10) @ [digit_char (n mod 10)])"

declare str_nat.simps [simp del]

definition str_int :: "int \<Rightarrow> string" where
  "str_int i = (if i < 0 then CHR ''-'' # str_nat (nat (- i)) else str_nat (nat i))"

fun join :: "string \<Rightarrow> string list \<Rightarrow> string" where
  "join sep [] = []"
| "join sep [x] = x"
| "join sep (x # y # ys) = x @ sep @ join sep (y # ys)"

fun json_dumps :: "json \<Rightarrow> string" where
  "json_dumps JNull = ''null''"
| "json_dumps (JBool b) = (if b then ''true'' else ''false'')"
| "json_dumps (JInt i) = str_int i"
| "json_dumps (JFloat lexeme) = lexeme"
| "json_dumps (JString s) = encode_basestring_ascii s"
| "json_dumps (JArray vs) = ''['' @ join '', '' (map json_dumps vs) @ '']''"
| "json_dumps (JObject kvs) =
     ''{'' @ join '', '' (map (\<lambda>(k, v). encode_basestring_ascii k @ '': '' @ json_dumps v) kvs) @ ''}''"


section \<open>Settings and the classifier client\<close>

record settings =
  nano_gpt_api_key :: string
  nano_gpt_api_url :: string
  data_dir :: string
  whisper_model :: string

record http_request =
  url :: string
  headers :: "(string \<times> string) list"
  json_body :: json

datatype http_outcome = Raised | Response int "error + json"

definition getitem_key :: "json \<Rightarrow> string \<Rightarrow> error + json" where
  "getitem_key v k = (case v of JObject d \<Rightarrow> dict_item d k | _ \<Rightarrow> Inl TypeError)"

definition getitem_index :: "json \<Rightarrow> nat \<Rightarrow> error + json" where
  "getitem_index v i =
     (case v of
        JArray xs \<Rightarrow> if i < length xs then Inr (xs ! i) else Inl IndexError
      | JString s \<Rightarrow> if i < length s then Inr (JString [s ! i]) else Inl IndexError
      | JObject d \<Rightarrow> Inl KeyError
      | _ \<Rightarrow> Inl TypeError)"

definition bind :: "error + 'a \<Rightarrow> ('a \<Rightarrow> error + 'b) \<Rightarrow> error + 'b" where
  "bind r f = (case r of Inl e \<Rightarrow> Inl e | Inr x \<Rightarrow> f x)"

definition newline :: string where
  "newline = [CHR 0x0A]"

definition system_prompt :: "string \<Rightarrow> string" where
  "system_prompt readme_content =
     ''You are an AI assistant that helps organize voice notes into folders.'' @ newline @
     newline @
     ''Based on the folder structure described below, analyze the transcript and decide:'' @ newline @
     ''1. Which folder it belongs in'' @ newline @
     ''2. A short title (max 50 chars)'' @ newline @
     ''3. A brief summary (max 100 chars)'' @ newline @
     ''4. A URL-safe slug for the filename (lowercase, hyphens, max 30 chars)'' @ newline @
     newline @
     ''## Folder Structure:'' @ newline @
     readme_content @ newline @
     newline @
     ''Respond with JSON only:'' @ newline @
     ''{\"folder\": \"folder_name\", \"title\": \"Short Title\", \"summary\": \"Brief summary\", \"slug\": \"url-safe-slug\"}''"

definition response_content :: "error + json \<Rightarrow> error + json" where
  "response_content body =
     bind body (\<lambda>data.
     bind (getitem_key data ''choices'') (\<lambda>choices.
     bind (getitem_index choices 0) (\<lambda>choice.
     bind (getitem_key choice ''message'') (\<lambda>message.
     getitem_key message ''content''))))"

definition classifier_request :: "settings \<Rightarrow> string \<Rightarrow> string \<Rightarrow> http_request" where
  "classifier_request st transcript readme_content =
     \<lparr>url = nano_gpt_api_url st,
      headers = [(''Authorization'', ''Bearer '' @ nano_gpt_api_key st),
                 (''Content-Type'', ''application/json'')],
      json_body = JObject
        [(''model'', JString ''gpt-4o-mini''),
         (''messages'', JArray
            [JObject [(''role'', JString ''system''),
                      (''content'', JString (system_prompt readme_content))],
             JObject [(''role'', JString ''user''),
                      (''content'', JString (''Transcript: '' @ transcript))]]),
         (''max_tokens'', JInt 200)]\<rparr>"

definition call_ai ::
  "settings \<Rightarrow> (http_request \<Rightarrow> http_outcome) \<Rightarrow> string \<Rightarrow> string \<Rightarrow> string
     \<Rightarrow> http_request list \<times> json" where
  "call_ai st post transcript readme_content default_folder =
     (if nano_gpt_api_key st = [] then
        ([], JString (json_dumps (JObject
           [(''folder'', JString default_folder),
            (''title'', JString (if 30 < length transcript then take 30 transcript @ ''...'' else transcript)),
            (''summary'', JString (take 100 transcript)),
            (''slug'', JString ''note'')])))
      else
        (let request = classifier_request st transcript readme_content
         in case post request of
              Raised \<Rightarrow>
                ([request], JString (json_dumps (JObject
                   [(''folder'', JString default_folder),
                    (''title'', JString (take 30 transcript)),
                    (''summary'', JString (take 100 transcript)),
                    (''slug'', JString ''note'')])))
            | Response status_code body \<Rightarrow>
                if status_code = 200 then
                  (case response_content body of
                     Inl e \<Rightarrow>
                       ([request], JString (json_dumps (JObject
                          [(''folder'', JString default_folder),
                           (''title'', JString (take 30 transcript)),
                           (''summary'', JString (take 100 transcript)),
                           (''slug'', JString ''note'')])))
                   | Inr content \<Rightarrow> ([request], content))
                else
                  ([request], JString (json_dumps (JObject
                     [(''folder'', JString default_folder),
                      (''title'', JString (take 30 transcript)),
                      (''summary'', JString (take 100 transcript)),
                      (''slug'', JString ''note'')])))))"

section \<open>Date and time\<close>

record datetime =
  year :: nat
  month :: nat
  day :: nat
  hour :: nat
  minute :: nat
  second :: nat
  microsecond :: nat
  tzinfo :: "int option"

definition number_of :: "string \<Rightarrow> nat option" where
  "number_of s = (if s = [] then None else nat_of_digits digit_val 10 0 s)"

definition is_leap :: "nat \<Rightarrow> bool" where
  "is_leap y = (y mod 4 = 0 \<and> (y mod 100 \<noteq> 0 \<or> y mod 400 = 0))"

definition days_in_month :: "nat \<Rightarrow> nat \<Rightarrow> nat" where
  "days_in_month y m =
     (if m = 2 then (if is_leap y then 29 else 28)
      else if m = 4 \<or> m = 6 \<or> m = 9 \<or> m = 11 then 30 else 31)"

definition parse_isoformat_date :: "string \<Rightarrow> (nat \<times> nat \<times> nat) option" where
  "parse_isoformat_date s =
     (if length s = 10 \<and> s ! 4 = CHR ''-'' \<and> s ! 7 = CHR ''-'' then
        (case (number_of (take 4 s), number_of (take 2 (drop 5 s)), number_of (drop 8 s)) of
           (Some y, Some m, Some d) \<Rightarrow> Some (y, m, d)
         | _ \<Rightarrow> None)
      else None)"

definition parse_hh_mm_ss_ff :: "string \<Rightarrow> (nat \<times> nat \<times> nat \<times> nat) option" where
  "parse_hh_mm_ss_ff s =
     (let n = length s in
      if \<not> (n = 2 \<or> n = 5 \<or> n = 8 \<or> n = 12 \<or> n = 15) then None
      else if (5 \<le> n \<and> s ! 2 \<noteq> CHR '':'') \<or> (8 \<le> n \<and> s ! 5 \<noteq> CHR '':'')
              \<or> (12 \<le> n \<and> s ! 8 \<noteq> CHR ''.'') then None
      else
        (case (number_of (take 2 s),
               if 5 \<le> n then number_of (take 2 (drop 3 s)) else Some 0,
               if 8 \<le> n then number_of (take 2 (drop 6 s)) else Some 0,
               if 12 \<le> n then map_option (\<lambda>f. if n = 12 then f * 1000 else f) (number_of (drop 9 s))
               else Some 0) of
           (Some h, Some m, Some sec, Some us) \<Rightarrow> Some (h, m, sec, us)
         | _ \<Rightarrow> None))"

definition is_sign :: "char \<Rightarrow> bool" where
  "is_sign c = (c = CHR ''+'' \<or> c = CHR ''-'')"

definition parse_isoformat_time :: "string \<Rightarrow> (nat \<times> nat \<times> nat \<times> nat \<times> int option) option" where
  "parse_isoformat_time tstr =
     (case parse_hh_mm_ss_ff (takeWhile (\<lambda>c. \<not> is_sign c) tstr) of
        None \<Rightarrow> None
      | Some (h, m, sec, us) \<Rightarrow>
          (case dropWhile (\<lambda>c. \<not> is_sign c) tstr of
             [] \<Rightarrow> Some (h, m, sec, us, None)
           | sg # tzstr \<Rightarrow>
               if \<not> (length tzstr = 5 \<or> length tzstr = 8 \<or> length tzstr = 15) then None
               else (case parse_hh_mm_ss_ff tzstr of
                       None \<Rightarrow> None
                     | Some (th, tm, ts, tus) \<Rightarrow>
                         (let off = ((th * 60 + tm) * 60 + ts) * 1000000 + tus
                          in if 86400000000 \<le> off then None
                             else Some (h, m, sec, us,
                                        Some (if sg = CHR ''-'' then - int off else int off))))))"

definition datetime_fromisoformat :: "string \<Rightarrow> datetime option" where
  "datetime_fromisoformat s =
     (case parse_isoformat_date (take 10 s) of
        None \<Rightarrow> None
      | Some (y, mo, d) \<Rightarrow>
          (case (if length s = 10 then Some (0, 0, 0, 0, None)
                 else parse_isoformat_time (drop 11 s)) of
             None \<Rightarrow> None
           | Some (h, mi, sec, us, tz) \<Rightarrow>
               if 1 \<le> y \<and> 1 \<le> mo \<and> mo \<le> 12 \<and> 1 \<le> d \<and> d \<le> days_in_month y mo
                  \<and> h < 24 \<and> mi < 60 \<and> sec < 60
               then Some \<lparr>year = y, month = mo, day = d, hour = h, minute = mi, second = sec,
                          microsecond = us, tzinfo = tz\<rparr>
               else None))"


definition zfill :: "nat \<Rightarrow> string \<Rightarrow> string" where
  "zfill width s = replicate (width - length s) (CHR ''0'') @ s"

definition month_name :: "nat \<Rightarrow> string" where
  "month_name m = [''January'', ''February'', ''March'', ''April'', ''May'', ''June'', ''July'',
                   ''August'', ''September'', ''October'', ''November'', ''December''] ! (m - 1)"

definition directive :: "datetime \<Rightarrow> char \<Rightarrow> string" where
  "directive dt d =
     (if d = CHR ''Y'' then zfill 4 (str_nat (year dt))
      else if d = CHR ''m'' then zfill 2 (str_nat (month dt))
      else if d = CHR ''d'' then zfill 2 (str_nat (day dt))
      else if d = CHR ''H'' then zfill 2 (str_nat (hour dt))
      else if d = CHR ''M'' then zfill 2 (str_nat (minute dt))
      else if d = CHR ''S'' then zfill 2 (str_nat (second dt))
      else if d = CHR ''B'' then month_name (month dt)
      else if d = CHR ''I'' then zfill 2 (str_nat (if hour dt mod 12 = 0 then 12 else hour dt mod 12))
      else if d = CHR ''p'' then (if hour dt < 12 then ''AM'' else ''PM'')
      else [CHR ''%'', d])"

fun strftime :: "datetime \<Rightarrow> string \<Rightarrow> string" where
  "strftime dt [] = []"
| "strftime dt [c] = [c]"
| "strftime dt (c # d # cs) =
     (if c = CHR ''%'' then directive dt d @ strftime dt cs else c # strftime dt (d # cs))"

section \<open>Paths and storage\<close>

datatype path = Path bool "string list"

definition path_of :: "string \<Rightarrow> path" where
  "path_of s = Path (prefix ''/'' s) (filter (\<lambda>p. p \<noteq> [] \<and> p \<noteq> ''.'') (split s ''/''))"

definition path_div :: "path \<Rightarrow> string \<Rightarrow> path" where
  "path_div p s =
     (case path_of s of
        Path True ps \<Rightarrow> Path True ps
      | Path False ps \<Rightarrow> (case p of Path anchored qs \<Rightarrow> Path anchored (qs @ ps)))"

definition path_str :: "path \<Rightarrow> string" where
  "path_str p =
     (case p of
        Path True ps \<Rightarrow> CHR ''/'' # join ''/'' ps
      | Path False ps \<Rightarrow> if ps = [] then ''.'' else join ''/'' ps)"

definition path_name :: "path \<Rightarrow> string" where
  "path_name p = (case p of Path anchored ps \<Rightarrow> if ps = [] then [] else last ps)"

definition path_parent :: "path \<Rightarrow> path" where
  "path_parent p = (case p of Path anchored ps \<Rightarrow> Path anchored (butlast ps))"

definition path_stem :: "path \<Rightarrow> string" where
  "path_stem p =
     (let name = path_name p; i = rfind name ''.''
      in if 0 < i \<and> i < int (length name) - 1 then take (nat i) name else name)"

record storage =
  dirs :: "path set"
  files :: "path \<rightharpoonup> string"


definition mkdir :: "storage \<Rightarrow> path \<Rightarrow> storage" where
  "mkdir fs p = fs\<lparr>dirs := insert p (dirs fs)\<rparr>"


definition write_file :: "storage \<Rightarrow> path \<Rightarrow> string \<Rightarrow> storage" where
  "write_file fs p content = fs\<lparr>files := (files fs)(p \<mapsto> content)\<rparr>"

section \<open>The note composer\<close>

definition format_value :: "(json \<Rightarrow> string) \<Rightarrow> json \<Rightarrow> string" where
  "format_value str v = (case v of JString s \<Rightarrow> s | _ \<Rightarrow> str v)"

definition get_readme_content :: "settings \<Rightarrow> storage \<Rightarrow> string" where
  "get_readme_content st fs =
     (case files fs (path_div (path_of (data_dir st)) ''README.md'') of
        Some content \<Rightarrow> content
      | None \<Rightarrow> [])"

definition create_note_content ::
  "(string \<Rightarrow> datetime option) \<Rightarrow> (json \<Rightarrow> string) \<Rightarrow> string \<Rightarrow> string \<Rightarrow> json \<Rightarrow> json \<Rightarrow> json
     \<Rightarrow> error + string" where
  "create_note_content fromiso str transcript timestamp title folder summary =
     (case fromiso (replace ''Z'' ''+00:00'' timestamp) of
        None \<Rightarrow> Inl ValueError
      | Some dt \<Rightarrow>
          (let formatted_date = strftime dt ''%B %d, %Y at %I:%M %p''
           in Inr (''# '' @ format_value str title @ newline @
                   newline @
                   ''**Date:** '' @ formatted_date @ newline @
                   ''**Folder:** '' @ format_value str folder @ newline @
                   newline @
                   ''---'' @ newline @
                   newline @
                   transcript @ newline @
                   newline @
                   ''---'' @ newline @
                   newline @
                   ''*Captured with Cortex*'' @ newline)))"

definition note_filename ::
  "(string \<Rightarrow> datetime option) \<Rightarrow> (json \<Rightarrow> string) \<Rightarrow> string \<Rightarrow> json \<Rightarrow> error + string" where
  "note_filename fromiso str timestamp slug =
     (case fromiso (replace ''Z'' ''+00:00'' timestamp) of
        None \<Rightarrow> Inl ValueError
      | Some dt \<Rightarrow> Inr (strftime dt ''%Y-%m-%d_%H-%M-%S'' @ ''_'' @ format_value str slug @ ''.md''))"

section \<open>Request and response models\<close>

record ProcessRequest =
  transcript :: string
  folder :: string
  timestamp :: string

record ProcessResponse =
  entry_id :: string
  preview :: string
  folder :: string
  file_path :: string
  title :: string

record FolderInfo =
  name :: string
  count :: nat
  description :: string

record CreateFolderRequest =
  name :: string
  description :: string

record EntryInfo =
  entry_id :: string
  preview :: string
  folder :: string
  timestamp :: string
  title :: string

record library =
  decode_json :: "string \<Rightarrow> error + json"
  parse_isoformat :: "string \<Rightarrow> datetime option"
  str_value :: "json \<Rightarrow> string"
  http_post :: "http_request \<Rightarrow> http_outcome"
  uuid4_str :: string

section \<open>The pipeline\<close>

definition validate_str :: "json \<Rightarrow> error + string" where
  "validate_str v = (case v of JString s \<Rightarrow> Inr s | _ \<Rightarrow> Inl ValidationError)"

definition process_transcript ::
  "library \<Rightarrow> settings \<Rightarrow> storage \<Rightarrow> ProcessRequest \<Rightarrow> storage \<times> (error + ProcessResponse)" where
  "process_transcript lib st fs request =
     (let readme_content = get_readme_content st fs;
          ai_response = snd (call_ai st (http_post lib) (transcript request) readme_content
                               (ProcessRequest.folder request))
      in case (case ai_response of
                 JString response \<Rightarrow>
                   parse_ai_response (decode_json lib) response (ProcessRequest.folder request)
               | _ \<Rightarrow> Inl AttributeError) of
           Inl e \<Rightarrow> (fs, Inl e)
         | Inr parsed \<Rightarrow>
             (let id = take 8 (uuid4_str lib)
              in case bind (dict_item parsed ''slug'')
                        (note_filename (parse_isoformat lib) (str_value lib)
                           (ProcessRequest.timestamp request)) of
                   Inl e \<Rightarrow> (fs, Inl e)
                 | Inr filename \<Rightarrow>
                     (case bind (dict_item parsed ''folder'')
                             (\<lambda>v. case v of JString s \<Rightarrow> Inr s | _ \<Rightarrow> Inl TypeError) of
                        Inl e \<Rightarrow> (fs, Inl e)
                      | Inr folder_name \<Rightarrow>
                          (let folder_path = path_div (path_of (data_dir st)) folder_name;
                               fs1 = mkdir fs folder_path;
                               file_path = path_div folder_path filename
                           in case bind (dict_item parsed ''title'') (\<lambda>title.
                                     create_note_content (parse_isoformat lib) (str_value lib)
                                       (transcript request) (ProcessRequest.timestamp request)
                                       title (JString folder_name)
                                       (dict_get parsed ''summary'' (JString []))) of
                                Inl e \<Rightarrow> (fs1, Inl e)
                              | Inr note_content \<Rightarrow>
                                  (let fs2 = write_file fs1 file_path note_content
                                   in (fs2,
                                       bind (validate_str
                                               (dict_get parsed ''summary''
                                                  (JString (take 100 (transcript request)))))
                                         (\<lambda>preview.
                                       bind (bind (dict_item parsed ''title'') validate_str)
                                         (\<lambda>title.
                                       Inr \<lparr>ProcessResponse.entry_id = id,
                                            preview = preview,
                                            folder = folder_name,
                                            file_path = path_str file_path,
                                            title = title\<rparr>))))))))"

section \<open>Corpus accessor\<close>


record note_file =
  location :: path
  st_mtime :: int
  mtime_isoformat :: string
  read_result :: "error + string"

definition entry_preview_text :: "string \<Rightarrow> string" where
  "entry_preview_text content =
     (let separator_idx = find content ''---''
      in if 0 < separator_idx then
           (let after_sep = strip (drop (nat (separator_idx + 3)) content);
                second_sep = find after_sep ''---''
            in if 0 < second_sep then strip (take (nat second_sep) after_sep)
               else take 100 after_sep)
         else take 100 content)"

definition claimed_preview :: "string \<Rightarrow> string" where
  "claimed_preview content =
     (let pieces = split content ''---''
      in if 3 \<le> length pieces then pieces ! 1 else take 100 content)"

definition entry_of :: "note_file \<Rightarrow> string \<Rightarrow> EntryInfo" where
  "entry_of f content =
     (let lines = split content newline;
          title = strip (lstrip_chars ''# '' (hd lines));
          preview_text = entry_preview_text content;
          filename = path_stem (location f);
          parts = split filename ''_'';
          timestamp = (if 2 \<le> length parts
                       then parts ! 0 @ ''T'' @ replace ''-'' '':'' (parts ! 1)
                       else mtime_isoformat f)
      in \<lparr>EntryInfo.entry_id = take 8 filename,
          preview = take 100 preview_text,
          folder = path_name (path_parent (location f)),
          timestamp = timestamp,
          title = title\<rparr>)"

definition list_entries :: "note_file list \<Rightarrow> int \<Rightarrow> EntryInfo list" where
  "list_entries found limit =
     concat (map (\<lambda>f. case read_result f of Inl e \<Rightarrow> [] | Inr content \<Rightarrow> [entry_of f content])
               (slice (sort_key (\<lambda>f. - st_mtime f) found) 0 limit))"

section \<open>Example environment for the closed instances\<close>

definition example_settings :: settings where
  "example_settings = \<lparr>nano_gpt_api_key = [], nano_gpt_api_url = ''https://nano-gpt.com/api/v1/chat/completions'',
                         data_dir = ''/data'', whisper_model = ''base''\<rparr>"


definition example_library :: library where
  "example_library = \<lparr>decode_json = json_loads, parse_isoformat = datetime_fromisoformat,
                         str_value = json_dumps, http_post = (\<lambda>request. Raised),
                         uuid4_str = ''1b9d6bcd-bbfd-4b2d-9b5d-ab8dfbbd4bed''\<rparr>"

definition example_storage :: storage where
  "example_storage = \<lparr>dirs = {Path True [''data''], Path True [''data'', ''inbox'']},
                         files = Map.empty\<rparr>"

definition example_reply :: http_outcome where
  "example_reply = Response 200 (Inr (JObject
     [(''choices'', JArray [JObject [(''message'', JObject
        [(''content'', JString ''Sure! {\"folder\":\"tasks\",\"slug\":\"buy-milk\"} Hope that helps.'')])]])]))"

definition example_note :: "string \<Rightarrow> note_file" where
  "example_note content =
     \<lparr>location = Path True [''data'', ''inbox'', ''2024-03-15_14-30-45_shopping.md''],
      st_mtime = 1710513045, mtime_isoformat = ''2024-03-15T14:30:45'',
      read_result = Inr content\<rparr>"

definition one_separator_note :: string where
  "one_separator_note =
     ''# Shopping'' @ newline @ newline @ ''---'' @ newline @ newline @ ''buy milk'' @ newline"

definition two_separator_note :: string where
  "two_separator_note =
     ''# Shopping'' @ newline @ newline @ ''---'' @ newline @ newline @ ''buy milk'' @ newline @
     newline @ ''---'' @ newline @ newline @ ''*Captured with Cortex*'' @ newline"

section \<open>Supporting lemmas\<close>

section \<open>Facts about find and rfind\<close>


lemma find_from_first:
  "c \<notin> set pre \<Longrightarrow> find_from [c] (pre @ c # rest) i = int (i + length pre)"
  by (induction pre arbitrary: i) auto


lemma find_first: "c \<notin> set pre \<Longrightarrow> find (pre @ c # rest) [c] = int (length pre)"
  by (simp add: find_def find_from_first)

lemma rfind_from_absent: "c \<notin> set s \<Longrightarrow> rfind_from [c] s i = - 1"
  by (induction s arbitrary: i) (auto simp: Let_def)

lemma rfind_from_range: "rfind_from [c] s i = - 1 \<or> (int i \<le> rfind_from [c] s i \<and> rfind_from [c] s i < int (i + length s))"
proof (induction s arbitrary: i)
  case Nil
  then show ?case by simp
next
  case (Cons a s)
  from Cons [of "Suc i"] show ?case by (auto simp: Let_def)
qed

lemma rfind_from_last:
  "c \<notin> set tail \<Longrightarrow> rfind_from [c] (pre @ c # tail) i = int (i + length pre)"
proof (induction pre arbitrary: i)
  case Nil
  then show ?case by (simp add: Let_def rfind_from_absent)
next
  case (Cons a pre)
  then show ?case by (simp add: Let_def)
qed


lemma rfind_last: "c \<notin> set tail \<Longrightarrow> rfind (pre @ c # tail) [c] = int (length pre)"
  by (simp add: rfind_def rfind_from_last)


lemma slice_span:
  "slice (pre @ mid @ tail) (int (length pre)) (int (length pre + length mid)) = mid"
proof -
  have "nat (int (length pre) + int (length mid)) = length pre + length mid"
    by (simp add: nat_add_distrib)
  then show ?thesis
    by (simp add: slice_def clamp_index_def Let_def min_def)
qed

lemma span_indices:
  assumes "CHR ''{'' \<notin> set pre" and "CHR ''}'' \<notin> set tail"
    and r: "response = pre @ CHR ''{'' # mid @ CHR ''}'' # tail"
  shows "find response ''{'' = int (length pre)"
    and "rfind response ''}'' + 1 = int (length pre + length (CHR ''{'' # mid @ [CHR ''}'']))"
    and "slice response (find response ''{'') (rfind response ''}'' + 1) = CHR ''{'' # mid @ [CHR ''}'']"
proof -
  show f: "find response ''{'' = int (length pre)"
    unfolding r using assms(1) by (rule find_first)
  have "response = (pre @ CHR ''{'' # mid) @ CHR ''}'' # tail"
    by (simp add: r)
  then have "rfind response ''}'' = int (length (pre @ CHR ''{'' # mid))"
    using rfind_last [OF assms(2), of "pre @ CHR ''{'' # mid"] by simp
  then show e: "rfind response ''}'' + 1 = int (length pre + length (CHR ''{'' # mid @ [CHR ''}'']))"
    by simp
  have "response = pre @ (CHR ''{'' # mid @ [CHR ''}'']) @ tail"
    by (simp add: r)
  then show "slice response (find response ''{'') (rfind response ''}'' + 1) = CHR ''{'' # mid @ [CHR ''}'']"
    unfolding f e using slice_span [of pre "CHR ''{'' # mid @ [CHR ''}'']" tail] by simp
qed


lemma hex_val_hex_digit: "k < 16 \<Longrightarrow> hex_val (hex_digit k) = Some k"
proof -
  have "list_all (\<lambda>k. hex_val (hex_digit k) = Some k) [0..<16]"
    by code_simp
  then show "k < 16 \<Longrightarrow> hex_val (hex_digit k) = Some k"
    by (simp add: list_all_iff)
qed

lemma of_char_less_256: "(of_char c :: nat) < 256"
  by (cases c) simp

lemma hex_val_zero: "hex_val (CHR ''0'') = Some 0"
  by (simp add: hex_val_def)

lemma scanstring_escape_char:
  assumes t: "scanstring t = Some (s, rest)"
  shows "scanstring (escape_char c @ t) = Some (c # s, rest)"
proof -
  consider (special) "c \<in> {CHR ''\"'', backslash, CHR 0x08, CHR 0x0C, CHR 0x0A, CHR 0x0D, CHR 0x09}"
    | (plain) "c \<notin> {CHR ''\"'', backslash, CHR 0x08, CHR 0x0C, CHR 0x0A, CHR 0x0D, CHR 0x09}"
        "32 \<le> (of_char c :: nat)" "(of_char c :: nat) \<le> 126"
    | (coded) "c \<notin> {CHR ''\"'', backslash, CHR 0x08, CHR 0x0C, CHR 0x0A, CHR 0x0D, CHR 0x09}"
        "\<not> (32 \<le> (of_char c :: nat) \<and> (of_char c :: nat) \<le> 126)"
    by blast
  then show ?thesis
  proof cases
    case special
    then show ?thesis
      using t by (auto simp: escape_char_def backslash_def unescape_def)
  next
    case plain
    then show ?thesis
      using t by (simp add: escape_char_def backslash_def)
  next
    case coded
    let ?n = "of_char c :: nat"
    have d: "?n div 16 < 16" "?n mod 16 < 16"
      using of_char_less_256 [of c] by (simp_all add: less_mult_imp_div_less)
    have e: "escape_char c = [backslash, CHR ''u'', CHR ''0'', CHR ''0'',
                hex_digit (?n div 16), hex_digit (?n mod 16)]"
      using coded by (simp add: escape_char_def backslash_def)
    have v: "nat_of_digits hex_val 16 0
               [CHR ''0'', CHR ''0'', hex_digit (?n div 16), hex_digit (?n mod 16)] = Some ?n"
      by (simp add: hex_val_zero hex_val_hex_digit [OF d(1)] hex_val_hex_digit [OF d(2)])
    have b: "\<not> 256 \<le> ?n"
      using of_char_less_256 [of c] by linarith
    show ?thesis
      unfolding e using t b
      by (simp add: backslash_def v del: nat_of_digits.simps)
  qed
qed

lemma scanstring_escape:
  "scanstring (concat (map escape_char s) @ CHR ''\"'' # rest) = Some (s, rest)"
proof (induction s)
  case Nil
  then show ?case by simp
next
  case (Cons c s)
  from scanstring_escape_char [OF Cons.IH, of c] show ?case by simp
qed

lemma scanstring_encoded:
  "scanstring (tl (encode_basestring_ascii s) @ rest) = Some (s, rest)"
  using scanstring_escape [of s rest] by (simp add: encode_basestring_ascii_def)

lemma scan_object_last_member:
  "scan_object (encode_basestring_ascii k @ CHR '':'' # CHR '' '' # encode_basestring_ascii v @ CHR ''}'' # rest)
     = Some ([(k, JString v)], rest)"
  by (simp add: encode_basestring_ascii_def scanstring_escape skip_ws_def is_ws_def)

lemma scan_object_next_member:
  "scan_object (encode_basestring_ascii k @ CHR '':'' # CHR '' '' # encode_basestring_ascii v
                  @ CHR '','' # CHR '' '' # encode_basestring_ascii k2 @ others)
     = (case scan_object (encode_basestring_ascii k2 @ others) of
          None \<Rightarrow> None
        | Some (pairs, rest) \<Rightarrow> Some ((k, JString v) # pairs, rest))"
  by (simp add: encode_basestring_ascii_def scanstring_escape skip_ws_def is_ws_def
           del: scan_object.simps
           add: scan_object.simps(2) [of "CHR ''\"''" "concat (map escape_char k) @ X" for X])

lemma scan_once_object:
  "scan_once (CHR ''{'' # encode_basestring_ascii k @ others)
     = (case scan_object (encode_basestring_ascii k @ others) of
          None \<Rightarrow> None
        | Some (pairs, rest) \<Rightarrow> Some (JObject (dict_of_pairs pairs), rest))"
  by (simp add: encode_basestring_ascii_def skip_ws_def is_ws_def del: scan_object.simps)

lemma json_loads_dumps_fields:
  "json_loads (json_dumps (JObject [(''folder'', JString a), (''title'', JString b),
                                     (''summary'', JString c), (''slug'', JString d)]))
     = Inr (JObject [(''folder'', JString a), (''title'', JString b),
                     (''summary'', JString c), (''slug'', JString d)])"
  by (simp add: json_loads_def skip_ws_def is_ws_def scan_once_object scan_object_next_member
                scan_object_last_member dict_of_pairs_def
           del: scan_once.simps scan_object.simps)

lemma parse_ai_response_object:
  assumes r: "response = pre @ CHR ''{'' # mid @ CHR ''}'' # tail"
    and a: "CHR ''{'' \<notin> set pre" and b: "CHR ''}'' \<notin> set tail"
    and l: "loads (CHR ''{'' # mid @ [CHR ''}'']) = Inr (JObject data)"
  shows "parse_ai_response loads response df =
           Inr [(''folder'', dict_get data ''folder'' (JString df)),
                (''title'', dict_get data ''title'' (JString ''Untitled'')),
                (''summary'', dict_get data ''summary'' (JString [])),
                (''slug'', dict_get data ''slug'' (JString ''note''))]"
proof -
  note s = span_indices [OF a b r]
  have "0 \<le> find response ''{'' \<and> find response ''{'' < rfind response ''}'' + 1"
    unfolding s(1) s(2) by simp
  then show ?thesis
    unfolding parse_ai_response_def Let_def s(3) l by simp
qed

lemma parse_ai_response_dumps_fields:
  "parse_ai_response json_loads
     (json_dumps (JObject [(''folder'', JString a), (''title'', JString b),
                           (''summary'', JString c), (''slug'', JString d)])) df
     = Inr [(''folder'', JString a), (''title'', JString b),
            (''summary'', JString c), (''slug'', JString d)]"
proof -
  define obj where "obj = JObject [(''folder'', JString a), (''title'', JString b),
                                   (''summary'', JString c), (''slug'', JString d)]"
  define raw where "raw = json_dumps obj"
  obtain mid where m: "raw = [] @ CHR ''{'' # mid @ CHR ''}'' # []"
    by (simp add: raw_def obj_def)
  have l: "json_loads (CHR ''{'' # mid @ [CHR ''}''])
             = Inr (JObject [(''folder'', JString a), (''title'', JString b),
                             (''summary'', JString c), (''slug'', JString d)])"
  proof -
    have "CHR ''{'' # mid @ [CHR ''}''] = raw"
      using m by simp
    then show ?thesis
      unfolding raw_def obj_def by (simp only: json_loads_dumps_fields)
  qed
  have "parse_ai_response json_loads raw df
          = Inr [(''folder'', JString a), (''title'', JString b),
                 (''summary'', JString c), (''slug'', JString d)]"
    using parse_ai_response_object [of raw "[]" mid "[]" json_loads _ df, OF m _ _ l]
    by (simp add: dict_get_def)
  then show ?thesis
    by (simp only: raw_def obj_def)
qed

lemma call_ai_with_credential:
  assumes "nano_gpt_api_key st \<noteq> []"
  shows "call_ai st send t readme df =
           ([classifier_request st t readme],
            case send (classifier_request st t readme) of
              Raised \<Rightarrow> JString (json_dumps (JObject
                [(''folder'', JString df), (''title'', JString (take 30 t)),
                 (''summary'', JString (take 100 t)), (''slug'', JString ''note'')]))
            | Response status_code body \<Rightarrow>
                if status_code = 200 then
                  (case response_content body of
                     Inl e \<Rightarrow> JString (json_dumps (JObject
                       [(''folder'', JString df), (''title'', JString (take 30 t)),
                        (''summary'', JString (take 100 t)), (''slug'', JString ''note'')]))
                   | Inr content \<Rightarrow> content)
                else JString (json_dumps (JObject
                  [(''folder'', JString df), (''title'', JString (take 30 t)),
                   (''summary'', JString (take 100 t)), (''slug'', JString ''note'')])))"
  using assms
  by (simp add: call_ai_def Let_def split: http_outcome.splits sum.splits del: json_dumps.simps)





lemma replicate_small:
  "replicate 1 c = [c]" "replicate 2 c = [c, c]" "replicate 3 c = [c, c, c]"
  by (simp_all add: numeral_eq_Suc)



lemma str_nat_length: "0 < length (str_nat n)"
  by (subst str_nat.simps) simp























lemma process_transcript_parsed:
  assumes a: "snd (call_ai st (http_post lib) (transcript request) (get_readme_content st fs)
                    (ProcessRequest.folder request)) = JString response"
    and p: "parse_ai_response (decode_json lib) response (ProcessRequest.folder request)
              = Inr [(''folder'', v1), (''title'', v2), (''summary'', v3), (''slug'', v4)]"
  shows "process_transcript lib st fs request =
     (case parse_isoformat lib (replace ''Z'' ''+00:00'' (ProcessRequest.timestamp request)) of
        None \<Rightarrow> (fs, Inl ValueError)
      | Some dt \<Rightarrow>
          (case v1 of
             JString folder_name \<Rightarrow>
               (write_file (mkdir fs (path_div (path_of (data_dir st)) folder_name))
                  (path_div (path_div (path_of (data_dir st)) folder_name)
                     (strftime dt ''%Y-%m-%d_%H-%M-%S'' @ ''_'' @ format_value (str_value lib) v4 @ ''.md''))
                  (projr (create_note_content (parse_isoformat lib) (str_value lib)
                            (transcript request) (ProcessRequest.timestamp request) v2
                            (JString folder_name) v3)),
                bind (validate_str v3) (\<lambda>preview_text.
                bind (validate_str v2) (\<lambda>title_text.
                Inr \<lparr>ProcessResponse.entry_id = take 8 (uuid4_str lib),
                     preview = preview_text,
                     folder = folder_name,
                     file_path = path_str (path_div (path_div (path_of (data_dir st)) folder_name)
                       (strftime dt ''%Y-%m-%d_%H-%M-%S'' @ ''_'' @ format_value (str_value lib) v4 @ ''.md'')),
                     title = title_text\<rparr>)))
           | _ \<Rightarrow> (fs, Inl TypeError)))"
  unfolding process_transcript_def Let_def a
  by (simp add: p dict_item_def dict_get_def bind_def note_filename_def create_note_content_def Let_def
           split: option.splits json.splits del: strftime.simps)








lemma example_reply_interpreted:
  "parse_ai_response json_loads ''Sure! {\"folder\":\"tasks\",\"slug\":\"buy-milk\"} Hope that helps.'' df =
     Inr [(''folder'', JString ''tasks''), (''title'', JString ''Untitled''),
          (''summary'', JString []), (''slug'', JString ''buy-milk'')]"
proof -
  have l: "json_loads ''{\"folder\":\"tasks\",\"slug\":\"buy-milk\"}''
             = Inr (JObject [(''folder'', JString ''tasks''), (''slug'', JString ''buy-milk'')])"
    by (simp add: json_loads_def skip_ws_def is_ws_def backslash_def dict_of_pairs_def)
  show ?thesis
    using parse_ai_response_object [of _ "''Sure! ''" "''\"folder\":\"tasks\",\"slug\":\"buy-milk\"''"
        "'' Hope that helps.''" json_loads _ df] l
    by (simp add: dict_get_def)
qed

lemma example_timestamp_parsed:
  "datetime_fromisoformat ''2024-03-15T14:30:45+00:00''
     = Some \<lparr>year = 2024, month = 3, day = 15, hour = 14, minute = 30, second = 45,
              microsecond = 0, tzinfo = Some 0\<rparr>"
  by (simp add: datetime_fromisoformat_def parse_isoformat_date_def parse_isoformat_time_def
        parse_hh_mm_ss_ff_def number_of_def digit_val_def is_sign_def days_in_month_def is_leap_def)

lemma example_filename:
  "strftime \<lparr>year = 2024, month = 3, day = 15, hour = 14, minute = 30, second = 45,
              microsecond = 0, tzinfo = Some 0\<rparr> ''%Y-%m-%d_%H-%M-%S'' = ''2024-03-15_14-30-45''"
  by (simp add: directive_def zfill_def str_nat.simps digit_char_def replicate_small)

lemma find_from_no_occurrence: "\<not> sublist sub s \<Longrightarrow> find_from sub s i = - 1"
proof (induction s arbitrary: i)
  case Nil
  then show ?case by auto
next
  case (Cons c s)
  then have "\<not> prefix sub (c # s)" "\<not> sublist sub s"
    by (auto simp: sublist_Cons_right)
  with Cons.IH show ?case by simp
qed

lemma find_no_occurrence: "\<not> sublist sub s \<Longrightarrow> find s sub = - 1"
  by (simp add: find_def find_from_no_occurrence)

lemma find_at_start: "prefix sub s \<Longrightarrow> find s sub = 0"
  by (cases s) (auto simp: find_def)

lemma prefix_within:
  assumes "prefix sub (xs @ ys)" and "length sub \<le> length xs"
  shows "prefix sub xs"
  using assms by (metis prefix_append prefix_length_le prefix_order.antisym prefix_def append_eq_append_conv_if prefixI take_is_prefix)

lemma find_from_first_occurrence:
  assumes "sub \<noteq> []"
  shows "\<not> sublist sub (pre @ butlast sub) \<Longrightarrow> find_from sub (pre @ sub @ rest) i = int (i + length pre)"
proof (induction pre arbitrary: i)
  case Nil
  obtain c cs where "sub @ rest = c # cs"
    using assms by (cases sub) auto
  moreover have "prefix sub (sub @ rest)"
    by simp
  ultimately show ?case
    by (metis append_Nil find_from.simps(2) list.size(3) add.right_neutral)
next
  case (Cons a pre)
  have n: "\<not> sublist sub (pre @ butlast sub)"
    using Cons.prems by (auto simp: sublist_Cons_right)
  have "\<not> prefix sub ((a # pre) @ sub @ rest)"
  proof
    assume p: "prefix sub ((a # pre) @ sub @ rest)"
    have "(a # pre) @ sub @ rest = ((a # pre) @ butlast sub) @ (last sub # rest)"
      using assms by simp
    moreover have "length sub \<le> length ((a # pre) @ butlast sub)"
      using assms by simp
    ultimately have "prefix sub ((a # pre) @ butlast sub)"
      using p prefix_within by metis
    then have "sublist sub ((a # pre) @ butlast sub)"
      by (rule prefix_imp_sublist)
    with Cons.prems show False by simp
  qed
  then show ?case
    using Cons.IH [OF n, of "Suc i"] by simp
qed

lemma find_first_occurrence:
  assumes "sub \<noteq> []" and "\<not> sublist sub (pre @ butlast sub)"
  shows "find (pre @ sub @ rest) sub = int (length pre)"
  using find_from_first_occurrence [OF assms, of rest 0] by (simp add: find_def)

lemma entry_preview_plain:
  assumes "\<not> sublist ''---'' content \<or> prefix ''---'' content"
  shows "entry_preview_text content = take 100 content"
  using assms find_no_occurrence [of "''---''" content] find_at_start [of "''---''" content]
  by (auto simp: entry_preview_text_def Let_def)

lemma entry_preview_after_first:
  assumes c: "content = pre @ ''---'' @ rest" and p: "pre \<noteq> []"
    and n: "\<not> sublist ''---'' (pre @ ''--'')"
  shows "entry_preview_text content =
           (let after_sep = strip rest; second_sep = find after_sep ''---''
            in if 0 < second_sep then strip (take (nat second_sep) after_sep) else take 100 after_sep)"
proof -
  have f: "find content ''---'' = int (length pre)"
    unfolding c using find_first_occurrence [of "''---''" pre rest] n by simp
  have d: "drop (nat (int (length pre) + 3)) content = rest"
    unfolding c by (simp add: nat_add_distrib)
  show ?thesis
    unfolding entry_preview_text_def Let_def f d using p by simp
qed

section \<open>The claims\<close>



text \<open>
  Claim C3. Every result that \<open>parse_ai_response\<close> returns is a dictionary with exactly
  the four keys folder, title, summary and slug, in that order, and a lookup of each of them
  succeeds. The value is whatever the decoded object held under that key (a JSON \<open>null\<close>
  included, which Python keeps as \<open>None\<close>) or the fallback.
\<close>

theorem parse_ai_response_fields_present:
  assumes "parse_ai_response loads response df = Inr parsed"
  shows "map fst parsed = [''folder'', ''title'', ''summary'', ''slug'']
         \<and> (\<forall>k \<in> set [''folder'', ''title'', ''summary'', ''slug'']. \<exists>v. dict_item parsed k = Inr v)"
  using assms
  by (auto simp: parse_ai_response_def Let_def default_result_def dict_item_def
           split: if_splits sum.splits error.splits json.splits)

text \<open>
  A reply that carries only a title still yields all four fields.
\<close>

theorem parse_ai_response_fields_present_witness:
  "parse_ai_response json_loads ''{\"title\": \"Milk\"}'' ''inbox'' =
     Inr [(''folder'', JString ''inbox''), (''title'', JString ''Milk''),
          (''summary'', JString []), (''slug'', JString ''note'')]
   \<and> map fst [(''folder'', JString ''inbox''), (''title'', JString ''Milk''),
               (''summary'', JString []), (''slug'', JString ''note'')]
       = [''folder'', ''title'', ''summary'', ''slug'']
   \<and> (\<exists>v. dict_item [(''folder'', JString ''inbox''), (''title'', JString ''Milk''),
                        (''summary'', JString []), (''slug'', JString ''note'')] ''summary'' = Inr v)"
proof -
  have l: "json_loads ''{\"title\": \"Milk\"}'' = Inr (JObject [(''title'', JString ''Milk'')])"
    by (simp add: json_loads_def skip_ws_def is_ws_def backslash_def dict_of_pairs_def)
  have p: "parse_ai_response json_loads ''{\"title\": \"Milk\"}'' ''inbox'' =
     Inr [(''folder'', JString ''inbox''), (''title'', JString ''Milk''),
          (''summary'', JString []), (''slug'', JString ''note'')]"
    using parse_ai_response_object [of _ "[]" "''\"title\": \"Milk\"''" "[]" json_loads _ "''inbox''"] l
    by (simp add: dict_get_def)
  from parse_ai_response_fields_present [OF p] p show ?thesis
    by simp
qed

text \<open>
  Claim C4. When the span from the first opening brace to the last closing brace decodes to
  an object, each of the four fields is taken from the object if the key is present, unchanged,
  and is replaced by its own default if the key is missing, independently of the other
  fields. With the concrete decoder \<open>json_loads\<close>, the reply of the specification's scenario
  yields folder tasks, title Untitled, an empty summary and slug buy-milk, for any default
  folder.
\<close>

theorem parse_ai_response_partial_object:
  "(response = pre @ CHR ''{'' # mid @ CHR ''}'' # tail
      \<and> CHR ''{'' \<notin> set pre \<and> CHR ''}'' \<notin> set tail
      \<and> loads (CHR ''{'' # mid @ [CHR ''}'']) = Inr (JObject data)
    \<longrightarrow> parse_ai_response loads response df =
          Inr [(''folder'', case map_of data ''folder'' of None \<Rightarrow> JString df | Some v \<Rightarrow> v),
               (''title'', case map_of data ''title'' of None \<Rightarrow> JString ''Untitled'' | Some v \<Rightarrow> v),
               (''summary'', case map_of data ''summary'' of None \<Rightarrow> JString [] | Some v \<Rightarrow> v),
               (''slug'', case map_of data ''slug'' of None \<Rightarrow> JString ''note'' | Some v \<Rightarrow> v)])
   \<and> parse_ai_response json_loads
         ''Sure! {\"folder\":\"tasks\",\"slug\":\"buy-milk\"} Hope that helps.'' df =
       Inr [(''folder'', JString ''tasks''), (''title'', JString ''Untitled''),
            (''summary'', JString []), (''slug'', JString ''buy-milk'')]"
proof (intro conjI impI)
  assume h: "response = pre @ CHR ''{'' # mid @ CHR ''}'' # tail
      \<and> CHR ''{'' \<notin> set pre \<and> CHR ''}'' \<notin> set tail
      \<and> loads (CHR ''{'' # mid @ [CHR ''}'']) = Inr (JObject data)"
  then show "parse_ai_response loads response df =
          Inr [(''folder'', case map_of data ''folder'' of None \<Rightarrow> JString df | Some v \<Rightarrow> v),
               (''title'', case map_of data ''title'' of None \<Rightarrow> JString ''Untitled'' | Some v \<Rightarrow> v),
               (''summary'', case map_of data ''summary'' of None \<Rightarrow> JString [] | Some v \<Rightarrow> v),
               (''slug'', case map_of data ''slug'' of None \<Rightarrow> JString ''note'' | Some v \<Rightarrow> v)]"
    using parse_ai_response_object [of response pre mid tail loads data df]
    by (simp add: dict_get_def)
next
  have l: "json_loads ''{\"folder\":\"tasks\",\"slug\":\"buy-milk\"}''
             = Inr (JObject [(''folder'', JString ''tasks''), (''slug'', JString ''buy-milk'')])"
    by (simp add: json_loads_def skip_ws_def is_ws_def backslash_def dict_of_pairs_def)
  show "parse_ai_response json_loads
         ''Sure! {\"folder\":\"tasks\",\"slug\":\"buy-milk\"} Hope that helps.'' df =
       Inr [(''folder'', JString ''tasks''), (''title'', JString ''Untitled''),
            (''summary'', JString []), (''slug'', JString ''buy-milk'')]"
    using parse_ai_response_object [of _ "''Sure! ''" "''\"folder\":\"tasks\",\"slug\":\"buy-milk\"''"
        "'' Hope that helps.''" json_loads _ df] l
    by (simp add: dict_get_def)
qed

text \<open>
  The general part of C4 at a concrete reply: the slug and a \<open>null\<close> summary are passed
  through, folder and title are defaulted.
\<close>

theorem parse_ai_response_partial_object_witness:
  "json_loads ''{\"slug\": \"call-mum\", \"summary\": null}'' =
     Inr (JObject [(''slug'', JString ''call-mum''), (''summary'', JNull)])
   \<and> parse_ai_response json_loads ''Here you go: {\"slug\": \"call-mum\", \"summary\": null}'' ''tasks'' =
       Inr [(''folder'', JString ''tasks''), (''title'', JString ''Untitled''),
            (''summary'', JNull), (''slug'', JString ''call-mum'')]"
proof -
  have l: "json_loads ''{\"slug\": \"call-mum\", \"summary\": null}'' =
     Inr (JObject [(''slug'', JString ''call-mum''), (''summary'', JNull)])"
    by (simp add: json_loads_def skip_ws_def is_ws_def backslash_def dict_of_pairs_def)
  from parse_ai_response_partial_object
         [of "''Here you go: {\"slug\": \"call-mum\", \"summary\": null}''" "''Here you go: ''"
             "''\"slug\": \"call-mum\", \"summary\": null''" "[]" json_loads
             "[(''slug'', JString ''call-mum''), (''summary'', JNull)]" "''tasks''"]
    l
  show ?thesis by simp
qed

text \<open>
  Claim C7. With an empty API key \<open>call_ai\<close> sends no request (the list of requests it
  hands back is empty, whatever the transport would have answered) and returns the
  serialisation of the fallback dictionary: the default folder, the transcript cut to 30
  characters with three dots appended exactly when it was longer, the first 100 characters
  as summary, and the slug note. Decoding that string again gives back exactly these four
  fields. For the transcript "buy milk" and the default folder "inbox" the string is the one
  of the specification's scenario.
\<close>

theorem call_ai_without_credential:
  assumes "nano_gpt_api_key st = []"
  shows "call_ai st send t readme df =
           ([], JString (json_dumps (JObject
              [(''folder'', JString df),
               (''title'', JString (if 30 < length t then take 30 t @ ''...'' else t)),
               (''summary'', JString (take 100 t)),
               (''slug'', JString ''note'')])))
       \<and> parse_ai_response json_loads
             (json_dumps (JObject
                [(''folder'', JString df),
                 (''title'', JString (if 30 < length t then take 30 t @ ''...'' else t)),
                 (''summary'', JString (take 100 t)),
                 (''slug'', JString ''note'')])) df =
           Inr [(''folder'', JString df),
                (''title'', JString (if 30 < length t then take 30 t @ ''...'' else t)),
                (''summary'', JString (take 100 t)),
                (''slug'', JString ''note'')]
       \<and> call_ai st send ''buy milk'' readme ''inbox'' =
           ([], JString ''{\"folder\": \"inbox\", \"title\": \"buy milk\", \"summary\": \"buy milk\", \"slug\": \"note\"}'')"
proof (intro conjI)
  show "call_ai st send t readme df =
           ([], JString (json_dumps (JObject
              [(''folder'', JString df),
               (''title'', JString (if 30 < length t then take 30 t @ ''...'' else t)),
               (''summary'', JString (take 100 t)),
               (''slug'', JString ''note'')])))"
    using assms by (simp add: call_ai_def)
  show "parse_ai_response json_loads
             (json_dumps (JObject
                [(''folder'', JString df),
                 (''title'', JString (if 30 < length t then take 30 t @ ''...'' else t)),
                 (''summary'', JString (take 100 t)),
                 (''slug'', JString ''note'')])) df =
           Inr [(''folder'', JString df),
                (''title'', JString (if 30 < length t then take 30 t @ ''...'' else t)),
                (''summary'', JString (take 100 t)),
                (''slug'', JString ''note'')]"
    by (rule parse_ai_response_dumps_fields)
  show "call_ai st send ''buy milk'' readme ''inbox'' =
           ([], JString ''{\"folder\": \"inbox\", \"title\": \"buy milk\", \"summary\": \"buy milk\", \"slug\": \"note\"}'')"
    using assms
    by (simp add: call_ai_def encode_basestring_ascii_def escape_char_def backslash_def)
qed

text \<open>
  C7 at settings without a key and a transcript longer than 30 characters: the title is cut
  and carries the dots.
\<close>

theorem call_ai_without_credential_witness:
  "nano_gpt_api_key example_settings = []
   \<and> call_ai example_settings (\<lambda>request. Raised) ''remember to water the plants before the weekend'' [] ''inbox'' =
       ([], JString ''{\"folder\": \"inbox\", \"title\": \"remember to water the plants b...\", \"summary\": \"remember to water the plants before the weekend\", \"slug\": \"note\"}'')"
proof -
  have k: "nano_gpt_api_key example_settings = []"
    by (simp add: example_settings_def)
  from call_ai_without_credential [OF k, of "\<lambda>request. Raised"
         "''remember to water the plants before the weekend''" "[]" "''inbox''"] k
  show ?thesis
    by (simp add: encode_basestring_ascii_def escape_char_def backslash_def)
qed

text \<open>
  Claim C10. With a key configured and a transcript longer than 30 characters, whenever the
  call fails (the transport raises, the status is not 200, or reading the content out of a
  200 reply raises), \<open>call_ai\<close> returns the serialisation of a dictionary whose title is
  exactly the first 30 characters, with no dots. The reply without a credential, for the same
  transcript, carries the dots, so the two replies differ.
\<close>

theorem call_ai_failure_title_not_elided:
  assumes k: "nano_gpt_api_key st \<noteq> []"
    and n: "30 < length t"
    and f: "\<forall>r. send r = Raised
              \<or> (\<exists>status_code body. send r = Response status_code body
                    \<and> (status_code \<noteq> 200 \<or> (\<exists>e. response_content body = Inl e)))"
  shows "snd (call_ai st send t readme df) =
           JString (json_dumps (JObject
              [(''folder'', JString df), (''title'', JString (take 30 t)),
               (''summary'', JString (take 100 t)), (''slug'', JString ''note'')]))
       \<and> parse_ai_response json_loads
             (json_dumps (JObject
                [(''folder'', JString df), (''title'', JString (take 30 t)),
                 (''summary'', JString (take 100 t)), (''slug'', JString ''note'')])) df =
           Inr [(''folder'', JString df), (''title'', JString (take 30 t)),
                (''summary'', JString (take 100 t)), (''slug'', JString ''note'')]
       \<and> length (take 30 t) = 30
       \<and> snd (call_ai (st\<lparr>nano_gpt_api_key := []\<rparr>) send t readme df) =
           JString (json_dumps (JObject
              [(''folder'', JString df), (''title'', JString (take 30 t @ ''...'')),
               (''summary'', JString (take 100 t)), (''slug'', JString ''note'')]))
       \<and> snd (call_ai st send t readme df)
           \<noteq> snd (call_ai (st\<lparr>nano_gpt_api_key := []\<rparr>) send t readme df)"
proof -
  let ?failed = "json_dumps (JObject
              [(''folder'', JString df), (''title'', JString (take 30 t)),
               (''summary'', JString (take 100 t)), (''slug'', JString ''note'')])"
  let ?mock = "json_dumps (JObject
              [(''folder'', JString df), (''title'', JString (take 30 t @ ''...'')),
               (''summary'', JString (take 100 t)), (''slug'', JString ''note'')])"
  have a: "snd (call_ai st send t readme df) = JString ?failed"
  proof -
    note c = call_ai_with_credential [OF k, of send t readme df]
    define request where "request = classifier_request st t readme"
    from f have "send request = Raised
              \<or> (\<exists>status_code body. send request = Response status_code body
                    \<and> (status_code \<noteq> 200 \<or> (\<exists>e. response_content body = Inl e)))"
      by blast
    then show ?thesis
      unfolding c request_def [symmetric] by (auto simp del: json_dumps.simps)
  qed
  have b: "snd (call_ai (st\<lparr>nano_gpt_api_key := []\<rparr>) send t readme df) = JString ?mock"
    using n by (simp add: call_ai_def)
  have p: "parse_ai_response json_loads ?failed df =
           Inr [(''folder'', JString df), (''title'', JString (take 30 t)),
                (''summary'', JString (take 100 t)), (''slug'', JString ''note'')]"
    by (rule parse_ai_response_dumps_fields)
  have q: "parse_ai_response json_loads ?mock df =
           Inr [(''folder'', JString df), (''title'', JString (take 30 t @ ''...'')),
                (''summary'', JString (take 100 t)), (''slug'', JString ''note'')]"
    by (rule parse_ai_response_dumps_fields)
  have "?failed \<noteq> ?mock"
  proof
    assume "?failed = ?mock"
    with p q show False by simp
  qed
  with a b p n show ?thesis
    by simp
qed

text \<open>
  C10 at a transport that answers 503.
\<close>

theorem call_ai_failure_title_not_elided_witness:
  "snd (call_ai (example_settings\<lparr>nano_gpt_api_key := ''secret''\<rparr>) (\<lambda>request. Response 503 (Inl ValueError))
          ''remember to water the plants before the weekend'' [] ''inbox'') =
     JString ''{\"folder\": \"inbox\", \"title\": \"remember to water the plants b\", \"summary\": \"remember to water the plants before the weekend\", \"slug\": \"note\"}''
   \<and> snd (call_ai (example_settings\<lparr>nano_gpt_api_key := ''secret''\<rparr>) (\<lambda>request. Response 503 (Inl ValueError))
          ''remember to water the plants before the weekend'' [] ''inbox'')
       \<noteq> snd (call_ai example_settings (\<lambda>request. Response 503 (Inl ValueError))
          ''remember to water the plants before the weekend'' [] ''inbox'')"
proof -
  have k: "nano_gpt_api_key (example_settings\<lparr>nano_gpt_api_key := ''secret''\<rparr>) \<noteq> []"
    by simp
  have n: "30 < length ''remember to water the plants before the weekend''"
    by simp
  have f: "\<forall>r. (\<lambda>request. Response 503 (Inl ValueError)) r = Raised
              \<or> (\<exists>status_code body. (\<lambda>request. Response 503 (Inl ValueError)) r = Response status_code body
                    \<and> (status_code \<noteq> 200 \<or> (\<exists>e. response_content body = Inl e)))"
    by simp
  have e: "example_settings\<lparr>nano_gpt_api_key := ''secret'', nano_gpt_api_key := []\<rparr> = example_settings"
    by (simp add: example_settings_def)
  from call_ai_failure_title_not_elided [OF k n f, of "[]" "''inbox''"] e
  show ?thesis
    by (simp add: encode_basestring_ascii_def escape_char_def backslash_def)
qed







text \<open>
  Claim C1 does not hold of the code. \<open>parse_ai_response\<close> always stores a summary (the
  empty string when the classifier gave none), so the default of
  \<open>parsed.get("summary", request.transcript[:100])\<close> at line 234 is never taken: an empty
  summary gives an empty preview. Here the classifier answers with the reply of the
  specification's own scenario, which has no summary; the transcript is not empty, and the
  preview is.
\<close>

theorem process_transcript_preview_empty_summary:
  "snd (process_transcript (example_library\<lparr>http_post := \<lambda>request. example_reply\<rparr>)
          (example_settings\<lparr>nano_gpt_api_key := ''secret''\<rparr>) example_storage
          \<lparr>transcript = ''remember to buy milk on the way home'', folder = ''inbox'',
           timestamp = ''2024-03-15T14:30:45Z''\<rparr>)
     = Inr \<lparr>ProcessResponse.entry_id = ''1b9d6bcd'', preview = [], folder = ''tasks'',
            file_path = ''/data/tasks/2024-03-15_14-30-45_buy-milk.md'', title = ''Untitled''\<rparr>
   \<and> take 100 ''remember to buy milk on the way home'' = ''remember to buy milk on the way home''"
proof -
  let ?lib = "example_library\<lparr>http_post := \<lambda>request. example_reply\<rparr>"
  let ?st = "example_settings\<lparr>nano_gpt_api_key := ''secret''\<rparr>"
  let ?request = "\<lparr>transcript = ''remember to buy milk on the way home'', folder = ''inbox'',
           timestamp = ''2024-03-15T14:30:45Z''\<rparr>"
  have k: "nano_gpt_api_key ?st \<noteq> []"
    by simp
  have a: "snd (call_ai ?st (http_post ?lib) (transcript ?request)
                  (get_readme_content ?st example_storage) (ProcessRequest.folder ?request))
             = JString ''Sure! {\"folder\":\"tasks\",\"slug\":\"buy-milk\"} Hope that helps.''"
    unfolding call_ai_with_credential [OF k]
    by (simp add: example_reply_def response_content_def bind_def getitem_key_def getitem_index_def
          dict_item_def del: json_dumps.simps)
  have p: "parse_ai_response (decode_json ?lib)
             ''Sure! {\"folder\":\"tasks\",\"slug\":\"buy-milk\"} Hope that helps.''
             (ProcessRequest.folder ?request)
           = Inr [(''folder'', JString ''tasks''), (''title'', JString ''Untitled''),
                  (''summary'', JString []), (''slug'', JString ''buy-milk'')]"
    using example_reply_interpreted [of "''inbox''"] by (simp add: example_library_def)
  have i: "parse_isoformat ?lib = datetime_fromisoformat" "uuid4_str ?lib = ''1b9d6bcd-bbfd-4b2d-9b5d-ab8dfbbd4bed''"
    by (simp_all add: example_library_def)
  have d: "path_str (path_div (path_div (path_of (data_dir ?st)) ''tasks'') ''2024-03-15_14-30-45_buy-milk.md'')
             = ''/data/tasks/2024-03-15_14-30-45_buy-milk.md''"
    by (simp add: example_settings_def path_str_def path_div_def path_of_def split_def)
  show ?thesis
    unfolding process_transcript_parsed [OF a p] i
    using d
    by (simp add: example_timestamp_parsed example_filename format_value_def bind_def validate_str_def
          del: strftime.simps)
qed

text \<open>
  Claim C8, amended to what lines 433-439 and 453 compute. A separator is an occurrence of
  three hyphens. If the content has no separator, or begins with one, the preview is the
  first 100 characters of the content. Otherwise let the remainder be the text after the
  first separator, stripped of surrounding whitespace: if the remainder has no separator, or
  begins with one, the preview is the first 100 characters of the remainder; if its first
  separator comes after a non-empty text, the preview is that text (the text between the
  first and the second separator), stripped and cut to 100 characters.
\<close>

theorem entry_preview_by_separators:
  "(\<not> sublist ''---'' content \<or> prefix ''---'' content \<longrightarrow>
      EntryInfo.preview (entry_of f content) = take 100 content)
   \<and> (content = pre @ ''---'' @ rest \<and> pre \<noteq> [] \<and> \<not> sublist ''---'' (pre @ ''--'') \<longrightarrow>
        (\<not> sublist ''---'' (strip rest) \<or> prefix ''---'' (strip rest) \<longrightarrow>
           EntryInfo.preview (entry_of f content) = take 100 (strip rest))
        \<and> (strip rest = mid @ ''---'' @ tail \<and> mid \<noteq> [] \<and> \<not> sublist ''---'' (mid @ ''--'') \<longrightarrow>
           EntryInfo.preview (entry_of f content) = take 100 (strip mid)))"
proof (intro conjI impI)
  assume "\<not> sublist ''---'' content \<or> prefix ''---'' content"
  then show "EntryInfo.preview (entry_of f content) = take 100 content"
    using entry_preview_plain [of content] by (simp add: entry_of_def Let_def)
next
  assume h: "content = pre @ ''---'' @ rest \<and> pre \<noteq> [] \<and> \<not> sublist ''---'' (pre @ ''--'')"
    and s: "\<not> sublist ''---'' (strip rest) \<or> prefix ''---'' (strip rest)"
  have "entry_preview_text content = take 100 (strip rest)"
    using entry_preview_after_first [of content pre rest] h s
      find_no_occurrence [of "''---''" "strip rest"] find_at_start [of "''---''" "strip rest"]
    by (auto simp: Let_def)
  then show "EntryInfo.preview (entry_of f content) = take 100 (strip rest)"
    by (simp add: entry_of_def Let_def)
next
  assume h: "content = pre @ ''---'' @ rest \<and> pre \<noteq> [] \<and> \<not> sublist ''---'' (pre @ ''--'')"
    and s: "strip rest = mid @ ''---'' @ tail \<and> mid \<noteq> [] \<and> \<not> sublist ''---'' (mid @ ''--'')"
  define after_sep where "after_sep = strip rest"
  have a: "after_sep = mid @ ''---'' @ tail"
    using s by (simp add: after_sep_def)
  have f: "find after_sep ''---'' = int (length mid)"
    unfolding a using find_first_occurrence [of "''---''" mid tail] s by simp
  have t: "take (length mid) after_sep = mid"
    unfolding a by simp
  have "entry_preview_text content =
           (let second_sep = find after_sep ''---''
            in if 0 < second_sep then strip (take (nat second_sep) after_sep) else take 100 after_sep)"
    using entry_preview_after_first [of content pre rest] h
    by (simp add: Let_def after_sep_def)
  then have "entry_preview_text content = strip mid"
    unfolding Let_def f using s by (simp add: t)
  then show "EntryInfo.preview (entry_of f content) = take 100 (strip mid)"
    by (simp add: entry_of_def Let_def)
qed

text \<open>
  Claim C8 fails as stated. A note with exactly one separator has fewer than two, so the
  claim promises the first 100 characters of the whole content (\<open>claimed_preview\<close>, which
  follows the claim's wording). The code instead takes the text after that separator,
  stripped: for the note below the preview is "buy milk", not the note's beginning.
\<close>

theorem entry_preview_single_separator_counterexample:
  "length (split one_separator_note ''---'') = 2
   \<and> EntryInfo.preview (entry_of (example_note one_separator_note) one_separator_note) = ''buy milk''
   \<and> claimed_preview one_separator_note = one_separator_note
   \<and> EntryInfo.preview (entry_of (example_note one_separator_note) one_separator_note)
       \<noteq> claimed_preview one_separator_note"
  by (simp add: one_separator_note_def newline_def split_def claimed_preview_def entry_of_def
        entry_preview_text_def find_def strip_def is_space_def Let_def)

text \<open>
  The amended C8 at a note of the shape the pipeline writes: the preview is the transcript
  between the two rules.
\<close>

theorem entry_preview_by_separators_witness:
  "two_separator_note = (''# Shopping'' @ newline @ newline) @ ''---'' @
      (newline @ newline @ ''buy milk'' @ newline @ newline @ ''---'' @ newline @ newline @
       ''*Captured with Cortex*'' @ newline)
   \<and> EntryInfo.preview (entry_of (example_note two_separator_note) two_separator_note) = ''buy milk''"
proof -
  let ?pre = "''# Shopping'' @ newline @ newline"
  let ?rest = "newline @ newline @ ''buy milk'' @ newline @ newline @ ''---'' @ newline @ newline @
       ''*Captured with Cortex*'' @ newline"
  let ?mid = "''buy milk'' @ newline @ newline"
  let ?tail = "newline @ newline @ ''*Captured with Cortex*''"
  have c: "two_separator_note = ?pre @ ''---'' @ ?rest"
    by (simp add: two_separator_note_def)
  have p: "?pre \<noteq> []" "\<not> sublist ''---'' (?pre @ ''--'')"
    by (simp_all add: newline_def sublist_Cons_right)
  have s: "strip ?rest = ?mid @ ''---'' @ ?tail"
    by (simp add: newline_def strip_def is_space_def)
  have m: "?mid \<noteq> []" "\<not> sublist ''---'' (?mid @ ''--'')"
    by (simp_all add: newline_def sublist_Cons_right)
  have t: "take 100 (strip ?mid) = ''buy milk''"
    by (simp add: newline_def strip_def is_space_def)
  from entry_preview_by_separators
         [of two_separator_note "example_note two_separator_note" ?pre ?rest ?mid ?tail]
       c p s m t
  show ?thesis
    by simp
qed

end
